theory Spec2Isabelle
  imports Main "HOL-Library.AList" "HOL-Library.Sublist" "HOL-Library.Char_ord"
    "HOL-Library.List_Lexorder" "HOL-Library.Multiset"
begin

section \<open>Time\<close>

text \<open>
  Instants and durations are counted in nanoseconds, as Go's \<^verbatim>\<open>time.Duration\<close> does.
  An instant is the wall-clock reading relative to the Unix epoch; this is the part of a
  \<^verbatim>\<open>time.Time\<close> that survives JSON and RFC3339 serialisation.
\<close>

type_synonym time = int

definition Second :: int where
  "Second = 1000000000"

definition Minute :: int where
  "Minute = 60 * Second"

definition maxDuration :: int where
  "maxDuration = 2 ^ 63 - 1"

definition minDuration :: int where
  "minDuration = - (2 ^ 63)"

text \<open>\<^verbatim>\<open>time.Time{}\<close>: January 1 of year 1, 00:00:00 UTC.\<close>

definition zeroTime :: time where
  "zeroTime = - 62135596800 * Second"

text \<open>\<^verbatim>\<open>t.Sub(u)\<close> saturates at the bounds of a 64-bit duration.\<close>

definition Sub :: "time \<Rightarrow> time \<Rightarrow> int" where
  "Sub t u = (if t - u > maxDuration then maxDuration
              else if t - u < minDuration then minDuration
              else t - u)"

definition Before :: "time \<Rightarrow> time \<Rightarrow> bool" where
  "Before t u = (t < u)"

text \<open>\<^verbatim>\<open>t.Format(time.RFC3339)\<close> followed by \<^verbatim>\<open>time.Parse\<close>: the fraction of a
  second is dropped.\<close>

definition rfc3339 :: "time \<Rightarrow> time" where
  "rfc3339 t = t - t mod Second"

section \<open>Data model\<close>

text \<open>The fields of \<^verbatim>\<open>gitlab.MergeRequest\<close>, \<^verbatim>\<open>gitlab.MergeRequestDiff\<close> and
  \<^verbatim>\<open>gitlab.Project\<close> that the program reads. \<^verbatim>\<open>UpdatedAt\<close> is a pointer in Go.\<close>

record MergeRequest =
  mr_ID :: int
  mr_IID :: int
  mr_ProjectID :: int
  mr_Title :: string
  mr_State :: string
  mr_DetailedMergeStatus :: string
  mr_UpdatedAt :: "time option"

record MergeRequestDiff =
  OldPath :: string
  NewPath :: string
  Diff :: string

record Project =
  p_ID :: int
  p_NameWithNamespace :: string

record mergeTarget =
  Id_t :: int
  ProjectID :: int
  MergeID :: int
  DiffHash :: string
  Info :: string
  Latest :: time
  Next :: time
  Active :: bool

record MergeRequestInfo =
  MergeRequest_i :: MergeRequest
  Target :: mergeTarget

text \<open>Go zero values.\<close>

definition zeroMergeRequest :: MergeRequest where
  "zeroMergeRequest = \<lparr>mr_ID = 0, mr_IID = 0, mr_ProjectID = 0, mr_Title = [], mr_State = [],
     mr_DetailedMergeStatus = [], mr_UpdatedAt = None\<rparr>"

definition zeroProject :: Project where
  "zeroProject = \<lparr>p_ID = 0, p_NameWithNamespace = []\<rparr>"

definition zeroTarget :: mergeTarget where
  "zeroTarget = \<lparr>Id_t = 0, ProjectID = 0, MergeID = 0, DiffHash = [], Info = [],
     Latest = zeroTime, Next = zeroTime, Active = False\<rparr>"

datatype error =
  StorageError
  | ErrNotFound
  | DecodeError
  | RemoteError
  | UsernameError
  | NilPanic

text \<open>What the store holds under a key: the JSON of one of the three record kinds, or the
  RFC3339 text of a timestamp.\<close>

datatype dbval =
  VMergeRequest MergeRequest
  | VProject Project
  | VTarget mergeTarget
  | VTimeStamp time

text \<open>Requests sent to the remote API, in the order they were issued.\<close>

datatype call =
  CListMergeRequests "string option" "string option" int
  | CListProjects int
  | CGetMergeRequest int int
  | CListMergeRequestDiffs int int
  | CApproveMergeRequest int int
  | CAcceptMergeRequest int int

text \<open>
  The outside world during one operation: the readings of \<^verbatim>\<open>time.Now()\<close> in the
  order they are taken, which storage operations fail (by key, or by prefix for opening an
  iterator), what the remote API answers, what \<^verbatim>\<open>%s\<close> prints for the two
  username pointers, and the order in which \<^verbatim>\<open>slices.SortFunc\<close>, which is not stable,
  leaves elements that compare equal (\<open>tie_order\<close>: a rearrangement of the slice that the
  sort then puts in order without moving equal elements past each other).
\<close>

record env =
  clock :: "nat \<Rightarrow> time"
  get_fault :: "string \<Rightarrow> bool"
  close_fault :: "string \<Rightarrow> bool"
  set_fault :: "string \<Rightarrow> bool"
  del_fault :: "string \<Rightarrow> bool"
  iter_fault :: "string \<Rightarrow> bool"
  ListMergeRequests :: "string option \<Rightarrow> string option \<Rightarrow> int \<Rightarrow> error + (MergeRequest list \<times> int)"
  ListProjects :: "int \<Rightarrow> error + (Project list \<times> int)"
  GetMergeRequest_r :: "int \<Rightarrow> int \<Rightarrow> error + MergeRequest"
  ListMergeRequestDiffs :: "int \<Rightarrow> int \<Rightarrow> error + MergeRequestDiff list"
  ApproveMergeRequest :: "int \<Rightarrow> int \<Rightarrow> error + MergeRequest"
  AcceptMergeRequest :: "int \<Rightarrow> int \<Rightarrow> error + MergeRequest"
  author_fmt :: string
  reviewer_fmt :: string
  tie_order :: "MergeRequest list \<Rightarrow> MergeRequest list"

text \<open>
  The manager and what it acts on: the store, the two username filters, the log of remote
  requests issued so far, the targets sent on \<^verbatim>\<open>processQueue\<close> (oldest first), and the
  number of clock readings taken.
\<close>

record state =
  db :: "(string \<times> dbval) list"
  AuthorUsername :: "string option"
  ReviewerUsername :: "string option"
  calls :: "call list"
  processQueue :: "mergeTarget list"
  ticks :: nat

section \<open>Keys\<close>

definition digit :: "nat \<Rightarrow> char" where
  "digit n = ''0123456789'' ! n"

fun itoa_nat :: "nat \<Rightarrow> string" where
  "itoa_nat n = (if n < 10 then [digit n] else itoa_nat (n div 10) @ [digit (n mod 10)])"

declare itoa_nat.simps [simp del]

text \<open>\<^verbatim>\<open>strconv.Itoa\<close>.\<close>

definition Itoa :: "int \<Rightarrow> string" where
  "Itoa i = (if i < 0 then CHR ''-'' # itoa_nat (nat (- i)) else itoa_nat (nat i))"

definition mrKey :: "int \<Rightarrow> string" where
  "mrKey i = ''mr-'' @ Itoa i"

definition targetKey :: "int \<Rightarrow> string" where
  "targetKey i = ''merge-target-'' @ Itoa i"

definition projectKey :: "int \<Rightarrow> string" where
  "projectKey i = ''project-'' @ Itoa i"

definition tsKey :: "string \<Rightarrow> string" where
  "tsKey timestampId = ''ts-'' @ timestampId"

section \<open>Record store\<close>

definition now :: "env \<Rightarrow> state \<Rightarrow> time \<times> state" where
  "now e s = (clock e (ticks s), s\<lparr>ticks := Suc (ticks s)\<rparr>)"

definition db_Get :: "env \<Rightarrow> string \<Rightarrow> state \<Rightarrow> error + dbval" where
  "db_Get e k s =
     (if get_fault e k then Inl StorageError
      else case map_of (db s) k of None \<Rightarrow> Inl ErrNotFound | Some v \<Rightarrow> Inr v)"

definition db_Set :: "env \<Rightarrow> string \<Rightarrow> dbval \<Rightarrow> state \<Rightarrow> error option \<times> state" where
  "db_Set e k v s =
     (if set_fault e k then (Some StorageError, s)
      else (None, s\<lparr>db := AList.update k v (db s)\<rparr>))"

definition db_Delete :: "env \<Rightarrow> string \<Rightarrow> state \<Rightarrow> error option \<times> state" where
  "db_Delete e k s =
     (if del_fault e k then (Some StorageError, s)
      else (None, s\<lparr>db := AList.delete k (db s)\<rparr>))"

text \<open>An iterator over \<^verbatim>\<open>prefixIterOptions(prefix)\<close>: the entries whose key starts with
  the prefix, as they were when the iterator was opened, in ascending order of the keys
  (bytewise).\<close>

definition prefixIter :: "env \<Rightarrow> string \<Rightarrow> state \<Rightarrow> error + (string \<times> dbval) list" where
  "prefixIter e p s =
     (if iter_fault e p then Inl StorageError
      else Inr (sort_key fst (filter (\<lambda>(k, v). prefix p k) (db s))))"

text \<open>\<^verbatim>\<open>store\<close>: \<^verbatim>\<open>json.Marshal\<close> does not fail on these record types.\<close>

definition store :: "env \<Rightarrow> string \<Rightarrow> dbval \<Rightarrow> state \<Rightarrow> error option \<times> state" where
  "store e key v s = db_Set e key v s"

text \<open>\<^verbatim>\<open>load\<close>: \<open>dec\<close> is \<^verbatim>\<open>json.Unmarshal\<close> into the type of \<^verbatim>\<open>v\<close>, and \<open>v0\<close> is what
  \<^verbatim>\<open>v\<close> held before the call; it is left as it was when the read or the decoding fails.\<close>

definition load :: "env \<Rightarrow> string \<Rightarrow> (dbval \<Rightarrow> 'a option) \<Rightarrow> 'a \<Rightarrow> state \<Rightarrow> 'a \<times> error option" where
  "load e key dec v0 s =
     (case db_Get e key s of
        Inl err \<Rightarrow> (v0, Some err)
      | Inr d \<Rightarrow>
          (case dec d of
             None \<Rightarrow> (v0, Some DecodeError)
           | Some v \<Rightarrow> (v, if close_fault e key then Some StorageError else None)))"

fun dec_mr :: "dbval \<Rightarrow> MergeRequest option" where
  "dec_mr (VMergeRequest mr) = Some mr"
| "dec_mr _ = None"

fun dec_project :: "dbval \<Rightarrow> Project option" where
  "dec_project (VProject p) = Some p"
| "dec_project _ = None"

fun dec_target :: "dbval \<Rightarrow> mergeTarget option" where
  "dec_target (VTarget t) = Some t"
| "dec_target _ = None"

fun dec_ts :: "dbval \<Rightarrow> time option" where
  "dec_ts (VTimeStamp t) = Some t"
| "dec_ts _ = None"

definition GetMergeRequest :: "env \<Rightarrow> int \<Rightarrow> state \<Rightarrow> MergeRequest \<times> error option" where
  "GetMergeRequest e i s = load e (mrKey i) dec_mr zeroMergeRequest s"

section \<open>Diff fingerprint\<close>

definition RenderDiffString :: "MergeRequestDiff list \<Rightarrow> string" where
  "RenderDiffString diff = foldl (\<lambda>diffText d. diffText @ Diff d @ [CHR 0x0A]) [] diff"

definition PullDiff :: "env \<Rightarrow> int \<Rightarrow> state \<Rightarrow> (error + MergeRequestDiff list) \<times> state" where
  "PullDiff e i s =
     (case GetMergeRequest e i s of
        (mr, Some err) \<Rightarrow> (Inl err, s)
      | (mr, None) \<Rightarrow>
          (ListMergeRequestDiffs e (mr_ProjectID mr) (mr_IID mr),
           s\<lparr>calls := calls s @ [CListMergeRequestDiffs (mr_ProjectID mr) (mr_IID mr)]\<rparr>))"

section \<open>Merge target state machine\<close>

definition storeTargetSilent :: "env \<Rightarrow> mergeTarget \<Rightarrow> state \<Rightarrow> state" where
  "storeTargetSilent e target s = snd (store e (targetKey (Id_t target)) (VTarget target) s)"

definition stopProcessing :: "env \<Rightarrow> mergeTarget \<Rightarrow> string \<Rightarrow> state \<Rightarrow> state" where
  "stopProcessing e target info s =
     (case now e s of (t, s1) \<Rightarrow>
        storeTargetSilent e (target\<lparr>Active := False, Next := t, Info := info\<rparr>) s1)"

definition reschedule :: "env \<Rightarrow> mergeTarget \<Rightarrow> int \<Rightarrow> string \<Rightarrow> state \<Rightarrow> state" where
  "reschedule e target delay info s =
     (case now e s of (t, s1) \<Rightarrow>
        storeTargetSilent e (target\<lparr>Next := t + delay, Info := info\<rparr>) s1)"

definition transientStatuses :: "string list" where
  "transientStatuses =
     [''approvals_syncing'', ''blocked_status'', ''checking'', ''ci_must_pass'',
      ''ci_still_running'', ''conflict'', ''external_status_checks'',
      ''jira_association_missing'', ''need_rebase'', ''unchecked'', ''locked_paths'',
      ''locked_lfs_files'']"

definition abortStatuses :: "string list" where
  "abortStatuses = [''discussions_not_resolved'', ''draft_status'', ''not_open'', ''requested_changes'']"

definition approve :: "env \<Rightarrow> int \<Rightarrow> int \<Rightarrow> state \<Rightarrow> (error + MergeRequest) \<times> state" where
  "approve e pid iid s =
     (ApproveMergeRequest e pid iid, s\<lparr>calls := calls s @ [CApproveMergeRequest pid iid]\<rparr>)"

definition accept :: "env \<Rightarrow> int \<Rightarrow> int \<Rightarrow> state \<Rightarrow> (error + MergeRequest) \<times> state" where
  "accept e pid iid s =
     (AcceptMergeRequest e pid iid, s\<lparr>calls := calls s @ [CAcceptMergeRequest pid iid]\<rparr>)"

definition processMerge :: "env \<Rightarrow> mergeTarget \<Rightarrow> string \<Rightarrow> state \<Rightarrow> state" where
  "processMerge e target0 mergeStatus s =
     (if \<not> Active target0 then s
      else case now e s of (t, s1) \<Rightarrow>
        let target = target0\<lparr>Latest := t\<rparr> in
        if mergeStatus \<in> set transientStatuses then
          reschedule e target (1 * Minute)
            (''status '' @ mergeStatus @ '' - will check again in 1 minute'') s1
        else if mergeStatus = ''not_approved'' then
          (case PullDiff e (Id_t target) s1 of
             (Inl err, s2) \<Rightarrow>
               reschedule e target (1 * Minute)
                 ''error pulling diff - will check again in 1 minute'' s2
           | (Inr diff, s2) \<Rightarrow>
               let currentDiff = RenderDiffString diff in
               if currentDiff \<noteq> DiffHash target then
                 stopProcessing e target ''aborted - diff changed'' s2
               else
                 (case approve e (ProjectID target) (MergeID target) s2 of
                    (Inl err, s3) \<Rightarrow>
                      reschedule e target (1 * Minute)
                        ''error approving - will check again in 1 minute'' s3
                  | (Inr mr, s3) \<Rightarrow>
                      (case store e (mrKey (mr_ID mr)) (VMergeRequest mr) s3 of (err, s4) \<Rightarrow>
                         reschedule e target (0 * Minute) ''approved - will try to merge'' s4)))
        else if mergeStatus = ''mergeable'' then
          (case accept e (ProjectID target) (MergeID target) s1 of
             (Inl err, s2) \<Rightarrow>
               reschedule e target (1 * Minute)
                 ''error merging - will check again in 1 minute'' s2
           | (Inr mr, s2) \<Rightarrow>
               (case store e (mrKey (mr_ID mr)) (VMergeRequest mr) s2 of (err, s3) \<Rightarrow>
                  stopProcessing e target ''merged'' s3))
        else if mergeStatus \<in> set abortStatuses then
          stopProcessing e target (''aborted - '' @ mergeStatus) s1
        else s1)"

section \<open>Scheduler loop\<close>

definition process :: "env \<Rightarrow> mergeTarget \<Rightarrow> state \<Rightarrow> error option \<times> state" where
  "process e target s =
     (case store e (targetKey (Id_t target)) (VTarget target) s of
        (Some err, s1) \<Rightarrow> (Some err, s1)
      | (None, s1) \<Rightarrow> (None, s1\<lparr>processQueue := processQueue s1 @ [target]\<rparr>))"

definition ApproveAndMergeMergeRequest ::
    "env \<Rightarrow> int \<Rightarrow> MergeRequestDiff list \<Rightarrow> state \<Rightarrow> error option \<times> state" where
  "ApproveAndMergeMergeRequest e i diff s =
     (let diffText = RenderDiffString diff in
      case GetMergeRequest e i s of
        (mr, Some err) \<Rightarrow> (Some err, s)
      | (mr, None) \<Rightarrow>
          (case now e s of (t, s1) \<Rightarrow>
             process e
               \<lparr>Id_t = mr_ID mr, ProjectID = mr_ProjectID mr, MergeID = mr_IID mr,
                DiffHash = diffText, Info = ''enabled'', Latest = zeroTime, Next = t,
                Active = True\<rparr> s1))"

text \<open>The body of the loop of \<^verbatim>\<open>processor\<close>, for one target received from the queue.\<close>

definition processorStep :: "env \<Rightarrow> mergeTarget \<Rightarrow> state \<Rightarrow> state" where
  "processorStep e target s =
     (let s1 = s\<lparr>calls := calls s @ [CGetMergeRequest (ProjectID target) (MergeID target)]\<rparr> in
      case GetMergeRequest_r e (ProjectID target) (MergeID target) of
        Inl err \<Rightarrow> s1
      | Inr mr \<Rightarrow>
          (case store e (mrKey (mr_ID mr)) (VMergeRequest mr) s1 of (err, s2) \<Rightarrow>
             processMerge e target (mr_DetailedMergeStatus mr) s2))"

text \<open>\<^verbatim>\<open>processor\<close> over the targets it receives, each with the world as it is while that
  target is processed.\<close>

fun processor :: "(env \<times> mergeTarget) list \<Rightarrow> state \<Rightarrow> state" where
  "processor [] s = s"
| "processor ((e, target) # rest) s = processor rest (processorStep e target s)"

text \<open>\<^verbatim>\<open>loadPrefix\<close> into a slice of the type that \<open>dec\<close> decodes.\<close>

fun loadItems :: "env \<Rightarrow> (dbval \<Rightarrow> 'a option) \<Rightarrow> (string \<times> dbval) list \<Rightarrow> 'a list \<Rightarrow> 'a list \<times> error option" where
  "loadItems e dec [] acc = (acc, None)"
| "loadItems e dec ((k, d) # rest) acc =
     (if get_fault e k then (acc, Some StorageError)
      else case dec d of
             None \<Rightarrow> (acc, Some DecodeError)
           | Some v \<Rightarrow> loadItems e dec rest (acc @ [v]))"

definition loadPrefix :: "env \<Rightarrow> string \<Rightarrow> (dbval \<Rightarrow> 'a option) \<Rightarrow> state \<Rightarrow> 'a list \<times> error option" where
  "loadPrefix e p dec s =
     (case prefixIter e p s of
        Inl err \<Rightarrow> ([], Some err)
      | Inr items \<Rightarrow> loadItems e dec items [])"

text \<open>The body of the inner loop of \<^verbatim>\<open>processEnqueuer\<close>, for one loaded target. Each of the
  two conditions reads the clock only when its first conjunct holds.\<close>

definition enqueueTarget :: "env \<Rightarrow> mergeTarget \<Rightarrow> state \<Rightarrow> state" where
  "enqueueTarget e target s =
     (let s1 =
        (if Active target then
           (case now e s of (t, s') \<Rightarrow>
              if Before (Next target) t
              then s'\<lparr>processQueue := processQueue s' @ [target]\<rparr> else s')
         else s)
      in
        if \<not> Active target then
          (case now e s1 of (t, s2) \<Rightarrow>
             if Before (Latest target) (t + (- 30 * Minute)) \<and>
                Info target \<noteq> ''aborted - diff changed''
             then snd (db_Delete e (targetKey (Id_t target)) s2)
             else s2)
        else s1)"

text \<open>One pass of the outer loop of \<^verbatim>\<open>processEnqueuer\<close>.\<close>

definition enqueuerPass :: "env \<Rightarrow> state \<Rightarrow> state" where
  "enqueuerPass e s =
     (case loadPrefix e ''merge-target-'' dec_target s of
        (mrt, Some err) \<Rightarrow> s
      | (mrt, None) \<Rightarrow> fold (enqueueTarget e) mrt s)"

text \<open>\<^verbatim>\<open>processEnqueuer\<close> over a number of passes, each with the world as it is then.\<close>

fun processEnqueuer :: "env list \<Rightarrow> state \<Rightarrow> state" where
  "processEnqueuer [] s = s"
| "processEnqueuer (e # es) s = processEnqueuer es (enqueuerPass e s)"

text \<open>\<^verbatim>\<open>ClearMerge\<close>: the fields of the literal are evaluated in the order they are written,
  \<^verbatim>\<open>Next\<close> before \<^verbatim>\<open>Latest\<close>; the fields it does not name have their zero value.\<close>

definition ClearMerge :: "env \<Rightarrow> int \<Rightarrow> state \<Rightarrow> error option \<times> state" where
  "ClearMerge e i s =
     (case now e s of (t1, s1) \<Rightarrow>
      case now e s1 of (t2, s2) \<Rightarrow>
        store e (targetKey i)
          (VTarget \<lparr>Id_t = i, ProjectID = 0, MergeID = 0, DiffHash = [], Info = ''cleared'',
             Latest = t2, Next = t1, Active = False\<rparr>) s2)"

section \<open>Staleness-gated sync\<close>

definition GetTimeStamp :: "env \<Rightarrow> string \<Rightarrow> state \<Rightarrow> time \<times> error option" where
  "GetTimeStamp e timestampId s =
     (case db_Get e (tsKey timestampId) s of
        Inl err \<Rightarrow> if err = ErrNotFound then (zeroTime, None) else (zeroTime, Some err)
      | Inr d \<Rightarrow>
          (case dec_ts d of
             None \<Rightarrow> (zeroTime, Some DecodeError)
           | Some lastFetch \<Rightarrow>
               (lastFetch,
                if close_fault e (tsKey timestampId) then Some StorageError else None)))"

definition setTimeStamp :: "env \<Rightarrow> string \<Rightarrow> time \<Rightarrow> state \<Rightarrow> error option \<times> state" where
  "setTimeStamp e timestampId t s = db_Set e (tsKey timestampId) (VTimeStamp (rfc3339 t)) s"

text \<open>The loop over one page of merge requests; \<open>mrIds\<close> is the set of keys seen so far.\<close>

fun storeMergeRequests ::
    "env \<Rightarrow> MergeRequest list \<Rightarrow> string list \<Rightarrow> state \<Rightarrow> (error + string list) \<times> state" where
  "storeMergeRequests e [] mrIds s = (Inr mrIds, s)"
| "storeMergeRequests e (mr # mrs) mrIds s =
     (let key = mrKey (mr_ID mr) in
      case store e (mrKey (mr_ID mr)) (VMergeRequest mr) s of
        (Some err, s1) \<Rightarrow> (Inl err, s1)
      | (None, s1) \<Rightarrow> storeMergeRequests e mrs (key # mrIds) s1)"

text \<open>The loop over the pages. It ends when the remote answers with an error or with
  \<^verbatim>\<open>NextPage = 0\<close>; the first argument bounds the pages requested, and \<open>None\<close> stands for a
  loop that has not ended within the bound.\<close>

fun fetchMergeRequestPages ::
    "nat \<Rightarrow> env \<Rightarrow> int \<Rightarrow> string list \<Rightarrow> state \<Rightarrow> ((error + string list) \<times> state) option" where
  "fetchMergeRequestPages 0 e page mrIds s = None"
| "fetchMergeRequestPages (Suc n) e page mrIds s =
     (let s1 = s\<lparr>calls := calls s @
                 [CListMergeRequests (AuthorUsername s) (ReviewerUsername s) page]\<rparr> in
      case ListMergeRequests e (AuthorUsername s) (ReviewerUsername s) page of
        Inl err \<Rightarrow> Some (Inl err, s1)
      | Inr (mrs, nextPage) \<Rightarrow>
          (case storeMergeRequests e mrs mrIds s1 of
             (Inl err, s2) \<Rightarrow> Some (Inl err, s2)
           | (Inr mrIds', s2) \<Rightarrow>
               if nextPage = 0 then Some (Inr mrIds', s2)
               else fetchMergeRequestPages n e nextPage mrIds' s2))"

text \<open>The loop that deletes the cached merge requests that were not seen.\<close>

fun deleteUnseen :: "env \<Rightarrow> string list \<Rightarrow> string list \<Rightarrow> state \<Rightarrow> error option \<times> state" where
  "deleteUnseen e [] mrIds s = (None, s)"
| "deleteUnseen e (item # items) mrIds s =
     (if item \<notin> set mrIds then
        (case db_Delete e item s of
           (Some err, s1) \<Rightarrow> (Some err, s1)
         | (None, s1) \<Rightarrow> deleteUnseen e items mrIds s1)
      else deleteUnseen e items mrIds s)"

definition FetchMergeRequests :: "nat \<Rightarrow> env \<Rightarrow> state \<Rightarrow> (error option \<times> state) option" where
  "FetchMergeRequests fuel e s =
     (if AuthorUsername s = None \<and> ReviewerUsername s = None then Some (Some UsernameError, s)
      else case fetchMergeRequestPages fuel e 1 [] s of
             None \<Rightarrow> None
           | Some (Inl err, s1) \<Rightarrow> Some (Some err, s1)
           | Some (Inr mrIds, s1) \<Rightarrow>
               (case prefixIter e ''mr-'' s1 of
                  Inl err \<Rightarrow> Some (Some err, s1)
                | Inr items \<Rightarrow> Some (deleteUnseen e (map fst items) mrIds s1)))"

fun storeProjects :: "env \<Rightarrow> Project list \<Rightarrow> state \<Rightarrow> error option \<times> state" where
  "storeProjects e [] s = (None, s)"
| "storeProjects e (project # projects) s =
     (case store e (projectKey (p_ID project)) (VProject project) s of
        (Some err, s1) \<Rightarrow> (Some err, s1)
      | (None, s1) \<Rightarrow> storeProjects e projects s1)"

fun fetchProjectPages :: "nat \<Rightarrow> env \<Rightarrow> int \<Rightarrow> state \<Rightarrow> (error option \<times> state) option" where
  "fetchProjectPages 0 e page s = None"
| "fetchProjectPages (Suc n) e page s =
     (let s1 = s\<lparr>calls := calls s @ [CListProjects page]\<rparr> in
      case ListProjects e page of
        Inl err \<Rightarrow> Some (Some err, s1)
      | Inr (projects, nextPage) \<Rightarrow>
          (case storeProjects e projects s1 of
             (Some err, s2) \<Rightarrow> Some (Some err, s2)
           | (None, s2) \<Rightarrow>
               if nextPage = 0 then Some (None, s2)
               else fetchProjectPages n e nextPage s2))"

definition FetchProjects :: "nat \<Rightarrow> env \<Rightarrow> state \<Rightarrow> (error option \<times> state) option" where
  "FetchProjects fuel e s = fetchProjectPages fuel e 1 s"

text \<open>\<^verbatim>\<open>FetchProjectsIfNotOutdated\<close> does not look at the error of \<^verbatim>\<open>GetTimeStamp\<close>.\<close>

definition FetchProjectsIfNotOutdated :: "nat \<Rightarrow> env \<Rightarrow> state \<Rightarrow> (error option \<times> state) option" where
  "FetchProjectsIfNotOutdated fuel e s =
     (case GetTimeStamp e ''last-fetch-projects'' s of (lastFetch, err) \<Rightarrow>
      case now e s of (t, s1) \<Rightarrow>
        if Sub t lastFetch > 60 * Minute then
          (case FetchProjects fuel e s1 of
             None \<Rightarrow> None
           | Some (Some err, s2) \<Rightarrow> Some (Some err, s2)
           | Some (None, s2) \<Rightarrow>
               (case now e s2 of (t2, s3) \<Rightarrow>
                case setTimeStamp e ''last-fetch-projects'' t2 s3 of
                  (Some err, s4) \<Rightarrow> Some (Some err, s4)
                | (None, s4) \<Rightarrow> Some (None, s4)))
        else Some (None, s1))"

text \<open>\<^verbatim>\<open>slices.SortFunc\<close> with the comparator of \<^verbatim>\<open>GetMergeRequests\<close>: latest update
  first. The sort is not stable, so the order among equal update times is the world's
  (\<open>tie_order\<close>); a \<open>tie_order\<close> that is not a rearrangement of the slice is ignored.\<close>

definition sortByUpdatedAt :: "env \<Rightarrow> MergeRequest list \<Rightarrow> MergeRequest list" where
  "sortByUpdatedAt e mrs =
     sort_key (\<lambda>mr. - (case mr_UpdatedAt mr of Some t \<Rightarrow> t | None \<Rightarrow> 0))
       (if mset (tie_order e mrs) = mset mrs then tie_order e mrs else mrs)"

text \<open>\<^verbatim>\<open>GetMergeRequests\<close>: the cached merge requests, latest update first, each with its
  merge target (the zero target when it cannot be loaded). Comparing two elements
  dereferences \<^verbatim>\<open>UpdatedAt\<close>.\<close>

definition GetMergeRequests :: "env \<Rightarrow> state \<Rightarrow> MergeRequestInfo list \<times> error option" where
  "GetMergeRequests e s =
     (case loadPrefix e ''mr-'' dec_mr s of (mrs, err) \<Rightarrow>
        if 2 \<le> length mrs \<and> (\<exists>mr \<in> set mrs. mr_UpdatedAt mr = None) then ([], Some NilPanic)
        else
          (map (\<lambda>mr. \<lparr>MergeRequest_i = mr,
                      Target = fst (load e (targetKey (mr_ID mr)) dec_target zeroTarget s)\<rparr>)
             (sortByUpdatedAt e mrs),
           err))"

definition timestampId :: "env \<Rightarrow> string" where
  "timestampId e = ''last-fetch-mr-'' @ author_fmt e @ ''-'' @ reviewer_fmt e"

definition GetOrFetchMergeRequests ::
    "nat \<Rightarrow> env \<Rightarrow> bool \<Rightarrow> state \<Rightarrow> ((MergeRequestInfo list \<times> error option) \<times> state) option" where
  "GetOrFetchMergeRequests fuel e force s =
     (case FetchProjectsIfNotOutdated fuel e s of
        None \<Rightarrow> None
      | Some (Some err, s1) \<Rightarrow> Some (([], Some err), s1)
      | Some (None, s1) \<Rightarrow>
          (case GetTimeStamp e (timestampId e) s1 of
             (lastFetch, Some err) \<Rightarrow> Some (([], Some err), s1)
           | (lastFetch, None) \<Rightarrow>
               (case now e s1 of (t, s2) \<Rightarrow>
                  if Sub t lastFetch > 1 * Minute \<or> force then
                    (case FetchMergeRequests fuel e s2 of
                       None \<Rightarrow> None
                     | Some (Some err, s3) \<Rightarrow> Some (([], Some err), s3)
                     | Some (None, s3) \<Rightarrow>
                         (case now e s3 of (t2, s4) \<Rightarrow>
                          case setTimeStamp e (timestampId e) t2 s4 of
                            (Some err, s5) \<Rightarrow> Some (([], Some err), s5)
                          | (None, s5) \<Rightarrow> Some (GetMergeRequests e s5, s5)))
                  else Some (GetMergeRequests e s2, s2))))"

section \<open>Well-formed stores\<close>

text \<open>The shape of every store the program builds: one entry per key, and under each key
  that starts with \<^verbatim>\<open>merge-target-\<close> a merge target stored under the key of its own
  \<^verbatim>\<open>Id\<close> (every write of a merge target uses \<^verbatim>\<open>"merge-target-" + strconv.Itoa(target.Id)\<close>).\<close>

definition keyedStore :: "(string \<times> dbval) list \<Rightarrow> bool" where
  "keyedStore d =
     (distinct (map fst d) \<and>
      list_all (\<lambda>(k, v). prefix ''merge-target-'' k \<longrightarrow>
                  (case v of VTarget t \<Rightarrow> k = targetKey (Id_t t) | _ \<Rightarrow> False)) d)"

section \<open>A sample environment\<close>


definition sampleEnv :: env where
  "sampleEnv = \<lparr>clock = (\<lambda>n. 1700000000 * Second + int n),
     get_fault = (\<lambda>k. False), close_fault = (\<lambda>k. False), set_fault = (\<lambda>k. False),
     del_fault = (\<lambda>k. False), iter_fault = (\<lambda>p. False),
     ListMergeRequests = (\<lambda>a r p. Inl RemoteError),
     ListProjects = (\<lambda>p. Inl RemoteError),
     GetMergeRequest_r = (\<lambda>p i. Inl RemoteError),
     ListMergeRequestDiffs = (\<lambda>p i. Inl RemoteError),
     ApproveMergeRequest = (\<lambda>p i. Inl RemoteError),
     AcceptMergeRequest = (\<lambda>p i. Inl RemoteError),
     author_fmt = ''%!s(*string=0xc000012340)'',
     reviewer_fmt = ''%!s(*string=<nil>)'',
     tie_order = (\<lambda>mrs. mrs)\<rparr>"

definition sampleTarget :: mergeTarget where
  "sampleTarget = \<lparr>Id_t = 7, ProjectID = 3, MergeID = 11, DiffHash = ''+x'' @ [CHR 0x0A],
     Info = ''enabled'', Latest = 0, Next = 0, Active = True\<rparr>"

definition sampleState :: state where
  "sampleState = \<lparr>db = [], AuthorUsername = Some ''renovate-bot'', ReviewerUsername = None,
     calls = [], processQueue = [], ticks = 0\<rparr>"

definition sampleMR :: MergeRequest where
  "sampleMR = \<lparr>mr_ID = 7, mr_IID = 11, mr_ProjectID = 3, mr_Title = ''Update dependency'',
     mr_State = ''opened'', mr_DetailedMergeStatus = ''not_approved'',
     mr_UpdatedAt = Some (1699999000 * Second)\<rparr>"

definition trackedState :: state where
  "trackedState = sampleState\<lparr>db := [(''merge-target-7'', VTarget sampleTarget),
     (''mr-7'', VMergeRequest sampleMR)]\<rparr>"

definition approvingEnv :: env where
  "approvingEnv = sampleEnv\<lparr>
     ListMergeRequestDiffs := (\<lambda>p i. Inr [\<lparr>OldPath = ''go.mod'', NewPath = ''go.mod'', Diff = ''+x''\<rparr>]),
     ApproveMergeRequest := (\<lambda>p i. Inr (sampleMR\<lparr>mr_DetailedMergeStatus := ''mergeable''\<rparr>))\<rparr>"

definition changedDiffEnv :: env where
  "changedDiffEnv = approvingEnv\<lparr>
     ListMergeRequestDiffs := (\<lambda>p i. Inr [\<lparr>OldPath = ''go.mod'', NewPath = ''go.mod'', Diff = ''+y''\<rparr>])\<rparr>"

definition rescheduledSample :: mergeTarget where
  "rescheduledSample = sampleTarget\<lparr>Latest := 1700000000000000000,
     Next := 1700000060000000001,
     Info := ''status ci_still_running - will check again in 1 minute''\<rparr>"

definition recognisedStatuses :: "string list" where
  "recognisedStatuses = transientStatuses @ [''not_approved'', ''mergeable''] @ abortStatuses"

definition unknownStatusEnv :: env where
  "unknownStatusEnv = sampleEnv\<lparr>
     GetMergeRequest_r := (\<lambda>p i. Inr (sampleMR\<lparr>mr_DetailedMergeStatus := ''some_new_status''\<rparr>))\<rparr>"

definition approvedSample :: mergeTarget where
  "approvedSample = sampleTarget\<lparr>Latest := 1700000000000000000, Next := 1700000000000000001,
     Info := ''approved - will try to merge''\<rparr>"

definition clearedSample :: mergeTarget where
  "clearedSample = \<lparr>Id_t = 7, ProjectID = 0, MergeID = 0, DiffHash = [], Info = ''cleared'',
     Latest = 1700000000000000001, Next = 1700000000000000000, Active = False\<rparr>"

definition abortedSample :: mergeTarget where
  "abortedSample = sampleTarget\<lparr>Latest := 1700000000000000000, Active := False,
     Next := 1700000000000000001, Info := ''aborted - diff changed''\<rparr>"




section \<open>Properties of the state machine\<close>

lemma storeTargetSilent_calls [simp]: "calls (storeTargetSilent e t s) = calls s"
  by (simp add: storeTargetSilent_def store_def db_Set_def)

lemma storeTargetSilent_db:
  "db (storeTargetSilent e t s) =
     (if set_fault e (targetKey (Id_t t)) then db s
      else AList.update (targetKey (Id_t t)) (VTarget t) (db s))"
  by (simp add: storeTargetSilent_def store_def db_Set_def)

lemma processMerge_inactive: "\<not> Active t \<Longrightarrow> processMerge e t st s = s"
  by (simp add: processMerge_def)

lemma processMerge_transient:
  "Active t \<Longrightarrow> st \<in> set transientStatuses \<Longrightarrow>
   processMerge e t st s =
     storeTargetSilent e
       (t\<lparr>Latest := clock e (ticks s), Next := clock e (Suc (ticks s)) + Minute,
          Info := ''status '' @ st @ '' - will check again in 1 minute''\<rparr>)
       (s\<lparr>ticks := Suc (Suc (ticks s))\<rparr>)"
  by (simp add: processMerge_def now_def reschedule_def)

lemma abort_not_transient: "st \<in> set abortStatuses \<Longrightarrow> st \<notin> set transientStatuses"
  by (auto simp: abortStatuses_def transientStatuses_def)

lemma abort_not_other: "st \<in> set abortStatuses \<Longrightarrow> st \<noteq> ''not_approved'' \<and> st \<noteq> ''mergeable''"
  by (auto simp: abortStatuses_def)

lemma processMerge_abort:
  "Active t \<Longrightarrow> st \<in> set abortStatuses \<Longrightarrow>
   processMerge e t st s =
     storeTargetSilent e
       (t\<lparr>Latest := clock e (ticks s), Active := False, Next := clock e (Suc (ticks s)),
          Info := ''aborted - '' @ st\<rparr>)
       (s\<lparr>ticks := Suc (Suc (ticks s))\<rparr>)"
  using abort_not_transient[of st] abort_not_other[of st]
  by (simp add: processMerge_def now_def stopProcessing_def)

lemma sample_key: "targetKey 7 = ''merge-target-7''"
  by (simp add: targetKey_def Itoa_def itoa_nat.simps digit_def)

text \<open>
  C8. An active task whose remote status is one of the permanently blocking codes is written
  back at once with \<open>Active = False\<close> and \<open>Info = "aborted - <status>"\<close>, and the
  transition issues no request to the remote API, so neither an approval nor a merge. The
  write is the only change to the store; a write the store refuses is logged and the store
  stays as it was.
\<close>

theorem abort_status_stops:
  assumes "Active target" and "mergeStatus \<in> set abortStatuses"
  shows "calls (processMerge e target mergeStatus s) = calls s \<and>
    (\<not> set_fault e (targetKey (Id_t target)) \<longrightarrow>
       db (processMerge e target mergeStatus s) =
         AList.update (targetKey (Id_t target))
           (VTarget (target\<lparr>Latest := clock e (ticks s), Active := False,
              Next := clock e (Suc (ticks s)), Info := ''aborted - '' @ mergeStatus\<rparr>))
           (db s)) \<and>
    (set_fault e (targetKey (Id_t target)) \<longrightarrow> db (processMerge e target mergeStatus s) = db s)"
  using assms by (simp add: processMerge_abort storeTargetSilent_db)

theorem abort_status_stops_witness:
  "Active sampleTarget \<and> ''draft_status'' \<in> set abortStatuses \<and>
   \<not> set_fault sampleEnv (targetKey (Id_t sampleTarget)) \<and>
   calls (processMerge sampleEnv sampleTarget ''draft_status'' sampleState) = [] \<and>
   db (processMerge sampleEnv sampleTarget ''draft_status'' sampleState) =
     [(''merge-target-7'',
       VTarget \<lparr>Id_t = 7, ProjectID = 3, MergeID = 11, DiffHash = ''+x'' @ [CHR 0x0A],
         Info = ''aborted - draft_status'', Latest = 1700000000 * Second,
         Next = 1700000000 * Second + 1, Active = False\<rparr>)]"
  using abort_status_stops [of sampleTarget "''draft_status''" sampleEnv sampleState]
  by (simp add: sampleTarget_def sampleEnv_def sampleState_def abortStatuses_def sample_key)

lemmas sample_defs = sampleEnv_def sampleState_def sampleTarget_def sampleMR_def trackedState_def
  approvingEnv_def changedDiffEnv_def

lemma sample_mr_key: "mrKey 7 = ''mr-7''"
  by (simp add: mrKey_def Itoa_def itoa_nat.simps digit_def)

lemma mrKey_neq_targetKey [simp]: "mrKey i \<noteq> targetKey j" "targetKey j \<noteq> mrKey i"
  by (simp_all add: mrKey_def targetKey_def)

lemma PullDiff_ticks [simp]: "fst (PullDiff e i (s\<lparr>ticks := n\<rparr>)) = fst (PullDiff e i s)"
  by (simp add: PullDiff_def GetMergeRequest_def load_def db_Get_def split: prod.splits option.splits sum.splits)

lemma PullDiff_snd:
  "fst (PullDiff e i s) = Inr diff \<Longrightarrow>
   snd (PullDiff e i s) =
     s\<lparr>calls := calls s @ [CListMergeRequestDiffs (mr_ProjectID (fst (GetMergeRequest e i s)))
                              (mr_IID (fst (GetMergeRequest e i s)))]\<rparr>"
  by (auto simp: PullDiff_def split: prod.splits option.splits)

lemma PullDiff_snd_err:
  "fst (PullDiff e i s) = Inl err \<Longrightarrow> db (snd (PullDiff e i s)) = db s \<and> ticks (snd (PullDiff e i s)) = ticks s"
  by (auto simp: PullDiff_def split: prod.splits option.splits)

lemma processMerge_diff_changed:
  assumes "Active t" and "fst (PullDiff e (Id_t t) s) = Inr diff" and "RenderDiffString diff \<noteq> DiffHash t"
  shows "processMerge e t ''not_approved'' s =
     storeTargetSilent e
       (t\<lparr>Latest := clock e (ticks s), Active := False, Next := clock e (Suc (ticks s)),
          Info := ''aborted - diff changed''\<rparr>)
       (s\<lparr>calls := calls s @ [CListMergeRequestDiffs (mr_ProjectID (fst (GetMergeRequest e (Id_t t) s)))
                              (mr_IID (fst (GetMergeRequest e (Id_t t) s)))],
          ticks := Suc (Suc (ticks s))\<rparr>)"
proof -
  let ?s1 = "s\<lparr>ticks := Suc (ticks s)\<rparr>"
  have f: "fst (PullDiff e (Id_t t) ?s1) = Inr diff" using assms(2) by simp
  have g: "GetMergeRequest e (Id_t t) ?s1 = GetMergeRequest e (Id_t t) s"
    by (simp add: GetMergeRequest_def load_def db_Get_def)
  have "PullDiff e (Id_t t) ?s1 = (Inr diff, snd (PullDiff e (Id_t t) ?s1))"
    using f by (metis prod.collapse)
  then show ?thesis
    using assms(1,3) PullDiff_snd[OF f] g
    by (simp add: processMerge_def now_def stopProcessing_def transientStatuses_def)
qed

lemma PullDiff_shift:
  "PullDiff e i (s\<lparr>ticks := n\<rparr>) =
     (fst (PullDiff e i s), (snd (PullDiff e i s))\<lparr>ticks := n\<rparr>)"
  by (simp add: PullDiff_def GetMergeRequest_def load_def db_Get_def
      split: prod.splits option.splits sum.splits)

lemma processMerge_not_approved:
  assumes "Active t"
  shows "processMerge e t ''not_approved'' s =
    (let target = t\<lparr>Latest := clock e (ticks s)\<rparr>;
         s2 = (snd (PullDiff e (Id_t t) s))\<lparr>ticks := Suc (ticks s)\<rparr> in
     case fst (PullDiff e (Id_t t) s) of
       Inl err \<Rightarrow> reschedule e target Minute ''error pulling diff - will check again in 1 minute'' s2
     | Inr diff \<Rightarrow>
         if RenderDiffString diff \<noteq> DiffHash t then
           stopProcessing e target ''aborted - diff changed'' s2
         else
           (case ApproveMergeRequest e (ProjectID t) (MergeID t) of
              Inl err \<Rightarrow>
                reschedule e target Minute ''error approving - will check again in 1 minute''
                  (s2\<lparr>calls := calls s2 @ [CApproveMergeRequest (ProjectID t) (MergeID t)]\<rparr>)
            | Inr mr \<Rightarrow>
                reschedule e target 0 ''approved - will try to merge''
                  (snd (store e (mrKey (mr_ID mr)) (VMergeRequest mr)
                     (s2\<lparr>calls := calls s2 @ [CApproveMergeRequest (ProjectID t) (MergeID t)]\<rparr>)))))"
  using assms
  by (simp add: processMerge_def now_def transientStatuses_def PullDiff_shift approve_def Let_def
      split: sum.splits prod.splits)

lemma reschedule_db:
  "db (reschedule e t d info s) =
     (if set_fault e (targetKey (Id_t t)) then db s
      else AList.update (targetKey (Id_t t))
             (VTarget (t\<lparr>Next := clock e (ticks s) + d, Info := info\<rparr>)) (db s))"
  by (simp add: reschedule_def now_def storeTargetSilent_db)

lemma stopProcessing_db:
  "db (stopProcessing e t info s) =
     (if set_fault e (targetKey (Id_t t)) then db s
      else AList.update (targetKey (Id_t t))
             (VTarget (t\<lparr>Active := False, Next := clock e (ticks s), Info := info\<rparr>)) (db s))"
  by (simp add: stopProcessing_def now_def storeTargetSilent_db)

lemma reschedule_calls [simp]: "calls (reschedule e t d info s) = calls s"
  by (simp add: reschedule_def now_def)

lemma stopProcessing_calls [simp]: "calls (stopProcessing e t info s) = calls s"
  by (simp add: stopProcessing_def now_def)

lemma store_calls [simp]: "calls (snd (store e k v s)) = calls s"
  by (simp add: store_def db_Set_def)

lemma store_ticks [simp]: "ticks (snd (store e k v s)) = ticks s"
  by (simp add: store_def db_Set_def)

lemma store_db:
  "db (snd (store e k v s)) = (if set_fault e k then db s else AList.update k v (db s))"
  by (simp add: store_def db_Set_def)

lemma PullDiff_db [simp]: "db (snd (PullDiff e i s)) = db s"
  by (simp add: PullDiff_def split: prod.splits option.splits)



lemmas eval_defs = processMerge_def now_def reschedule_def stopProcessing_def storeTargetSilent_def
  store_def db_Set_def PullDiff_def GetMergeRequest_def load_def db_Get_def approve_def accept_def
  RenderDiffString_def transientStatuses_def abortStatuses_def Minute_def Second_def


text \<open>
  C6, as stated, fails: after a successful approval the record has \<open>Next\<close> equal to the clock
  reading taken by \<^verbatim>\<open>reschedule\<close>, not to \<open>Latest\<close>, which was read before the diff fetch.
\<close>

theorem approval_next_counterexample:
  "map_of (db (processMerge approvingEnv sampleTarget ''not_approved'' trackedState)) (targetKey 7) =
     Some (VTarget approvedSample) \<and>
   Next approvedSample \<noteq> Latest approvedSample"
  by (simp add: eval_defs sample_defs sample_key sample_mr_key approvedSample_def)

text \<open>
  C6, amended. For an active task with status \<open>not_approved\<close> whose fetched diff matches the
  fingerprint: if the approval succeeds, the record is written with \<open>Active\<close> still true,
  \<open>Info = "approved - will try to merge"\<close> and \<open>Next\<close> the clock reading taken at the
  reschedule, with no delay added (\<open>Latest\<close> is the earlier reading taken on entry); if the
  approval fails, \<open>Next\<close> is that reading plus one minute. A refused write leaves the stored
  record as it was.
\<close>

theorem approval_reschedules:
  assumes "Active target" and "fst (PullDiff e (Id_t target) s) = Inr diff"
    and "RenderDiffString diff = DiffHash target"
  shows "(let s' = processMerge e target ''not_approved'' s; k = targetKey (Id_t target) in
          (\<forall>mr. ApproveMergeRequest e (ProjectID target) (MergeID target) = Inr mr \<and>
                \<not> set_fault e k \<longrightarrow>
             map_of (db s') k =
               Some (VTarget (target\<lparr>Latest := clock e (ticks s),
                  Next := clock e (Suc (ticks s)), Info := ''approved - will try to merge''\<rparr>))) \<and>
          (\<forall>err. ApproveMergeRequest e (ProjectID target) (MergeID target) = Inl err \<and>
                \<not> set_fault e k \<longrightarrow>
             map_of (db s') k =
               Some (VTarget (target\<lparr>Latest := clock e (ticks s),
                  Next := clock e (Suc (ticks s)) + Minute,
                  Info := ''error approving - will check again in 1 minute''\<rparr>))) \<and>
          (set_fault e k \<longrightarrow> map_of (db s') k = map_of (db s) k))"
  using assms
  by (auto simp: processMerge_not_approved Let_def reschedule_db store_db update_conv'
      split: sum.splits)

theorem approval_reschedules_witness:
  "Active sampleTarget \<and>
   fst (PullDiff approvingEnv (Id_t sampleTarget) trackedState) =
     Inr [\<lparr>OldPath = ''go.mod'', NewPath = ''go.mod'', Diff = ''+x''\<rparr>] \<and>
   RenderDiffString [\<lparr>OldPath = ''go.mod'', NewPath = ''go.mod'', Diff = ''+x''\<rparr>] =
     DiffHash sampleTarget \<and>
   ApproveMergeRequest approvingEnv (ProjectID sampleTarget) (MergeID sampleTarget) =
     Inr (sampleMR\<lparr>mr_DetailedMergeStatus := ''mergeable''\<rparr>) \<and>
   \<not> set_fault approvingEnv (targetKey (Id_t sampleTarget)) \<and>
   map_of (db (processMerge approvingEnv sampleTarget ''not_approved'' trackedState))
       (targetKey (Id_t sampleTarget)) =
     Some (VTarget (sampleTarget\<lparr>Latest := clock approvingEnv 0, Next := clock approvingEnv 1,
        Info := ''approved - will try to merge''\<rparr>))"
  using approval_reschedules [of sampleTarget approvingEnv trackedState
      "[\<lparr>OldPath = ''go.mod'', NewPath = ''go.mod'', Diff = ''+x''\<rparr>]"]
  by (simp add: sample_defs sample_key sample_mr_key PullDiff_def GetMergeRequest_def load_def
      db_Get_def RenderDiffString_def Let_def)

text \<open>
  C7, as stated, fails: \<open>Next\<close> is one minute after the clock reading taken by
  \<^verbatim>\<open>reschedule\<close>, which is a second reading, not \<open>Latest\<close>.
\<close>

theorem transient_next_counterexample:
  "map_of (db (processMerge sampleEnv sampleTarget ''ci_still_running'' sampleState)) (targetKey 7) =
     Some (VTarget rescheduledSample) \<and>
   Next rescheduledSample \<noteq> Latest rescheduledSample + Minute"
  by (simp add: eval_defs sample_defs sample_key rescheduledSample_def)

text \<open>
  C7, amended. For an active task whose remote status is one of the transient codes, no
  remote request is issued and the record is written with \<open>Active\<close> still true,
  \<open>Latest\<close> the clock reading taken on entry, \<open>Next\<close> the clock reading taken at the
  reschedule plus one minute, and
  \<open>Info = "status <status> - will check again in 1 minute"\<close>.
\<close>

theorem transient_status_reschedules:
  assumes "Active target" and "mergeStatus \<in> set transientStatuses"
  shows "(let s' = processMerge e target mergeStatus s; k = targetKey (Id_t target) in
          calls s' = calls s \<and>
          (\<not> set_fault e k \<longrightarrow>
             db s' = AList.update k
               (VTarget (target\<lparr>Latest := clock e (ticks s),
                  Next := clock e (Suc (ticks s)) + Minute,
                  Info := ''status '' @ mergeStatus @ '' - will check again in 1 minute''\<rparr>))
               (db s)) \<and>
          (set_fault e k \<longrightarrow> db s' = db s))"
  using assms by (simp add: processMerge_transient storeTargetSilent_db Let_def)

theorem transient_status_reschedules_witness:
  "Active sampleTarget \<and> ''ci_still_running'' \<in> set transientStatuses \<and>
   \<not> set_fault sampleEnv (targetKey (Id_t sampleTarget)) \<and>
   calls (processMerge sampleEnv sampleTarget ''ci_still_running'' sampleState) = [] \<and>
   db (processMerge sampleEnv sampleTarget ''ci_still_running'' sampleState) =
     [(''merge-target-7'',
       VTarget \<lparr>Id_t = 7, ProjectID = 3, MergeID = 11, DiffHash = ''+x'' @ [CHR 0x0A],
         Info = ''status ci_still_running - will check again in 1 minute'',
         Latest = 1700000000 * Second, Next = 1700000000 * Second + 1 + Minute, Active = True\<rparr>)]"
  using transient_status_reschedules [of sampleTarget "''ci_still_running''" sampleEnv sampleState]
  by (simp add: sampleTarget_def sampleEnv_def sampleState_def transientStatuses_def sample_key Let_def)

lemma processMerge_unknown:
  "mergeStatus \<notin> set recognisedStatuses \<Longrightarrow>
   processMerge e target mergeStatus s = (if Active target then s\<lparr>ticks := Suc (ticks s)\<rparr> else s)"
  by (simp add: processMerge_def now_def recognisedStatuses_def)

text \<open>
  C9. For a status outside the recognised set, \<^verbatim>\<open>processMerge\<close> leaves the store, the
  log of remote requests and the queue as they were. In the worker, such a task costs the
  status fetch only; every merge-target record is as before, and the loop goes on with the
  next target.
\<close>

theorem unknown_status_no_change:
  assumes "mergeStatus \<notin> set recognisedStatuses"
  shows "db (processMerge e target mergeStatus s) = db s \<and>
         calls (processMerge e target mergeStatus s) = calls s \<and>
         processQueue (processMerge e target mergeStatus s) = processQueue s \<and>
         (\<forall>mr. GetMergeRequest_r e (ProjectID target) (MergeID target) = Inr mr \<and>
               mr_DetailedMergeStatus mr = mergeStatus \<longrightarrow>
            (\<forall>i. map_of (db (processorStep e target s)) (targetKey i) = map_of (db s) (targetKey i)) \<and>
            calls (processorStep e target s) =
              calls s @ [CGetMergeRequest (ProjectID target) (MergeID target)] \<and>
            processQueue (processorStep e target s) = processQueue s) \<and>
         (\<forall>rest. processor ((e, target) # rest) s = processor rest (processorStep e target s))"
  using assms
  by (auto simp: processMerge_unknown processorStep_def Let_def store_def db_Set_def update_conv'
      split: prod.splits)

theorem unknown_status_no_change_witness:
  "''some_new_status'' \<notin> set recognisedStatuses \<and>
   GetMergeRequest_r unknownStatusEnv (ProjectID sampleTarget) (MergeID sampleTarget) =
     Inr (sampleMR\<lparr>mr_DetailedMergeStatus := ''some_new_status''\<rparr>) \<and>
   db (processMerge unknownStatusEnv sampleTarget ''some_new_status'' trackedState) =
     db trackedState \<and>
   calls (processMerge unknownStatusEnv sampleTarget ''some_new_status'' trackedState) = [] \<and>
   map_of (db (processorStep unknownStatusEnv sampleTarget trackedState)) (targetKey 7) =
     Some (VTarget sampleTarget) \<and>
   calls (processorStep unknownStatusEnv sampleTarget trackedState) = [CGetMergeRequest 3 11]"
proof -
  have u: "''some_new_status'' \<notin> set recognisedStatuses"
    by (simp add: recognisedStatuses_def transientStatuses_def abortStatuses_def)
  have g: "GetMergeRequest_r unknownStatusEnv (ProjectID sampleTarget) (MergeID sampleTarget) =
      Inr (sampleMR\<lparr>mr_DetailedMergeStatus := ''some_new_status''\<rparr>)"
    by (simp add: unknownStatusEnv_def)
  note w = unknown_status_no_change [OF u, of unknownStatusEnv sampleTarget trackedState]
  from w g have "map_of (db (processorStep unknownStatusEnv sampleTarget trackedState)) (targetKey 7) =
      map_of (db trackedState) (targetKey 7)"
    by simp
  moreover have "map_of (db trackedState) (targetKey 7) = Some (VTarget sampleTarget)"
    by (simp add: trackedState_def sampleState_def sample_key)
  ultimately show ?thesis
    using w u g by (simp add: sample_defs)
qed

lemma processMerge_mergeable:
  assumes "Active t"
  shows "processMerge e t ''mergeable'' s =
    (let target = t\<lparr>Latest := clock e (ticks s)\<rparr>;
         s2 = s\<lparr>ticks := Suc (ticks s),
                 calls := calls s @ [CAcceptMergeRequest (ProjectID t) (MergeID t)]\<rparr> in
     case AcceptMergeRequest e (ProjectID t) (MergeID t) of
       Inl err \<Rightarrow> reschedule e target Minute ''error merging - will check again in 1 minute'' s2
     | Inr mr \<Rightarrow>
         stopProcessing e target ''merged''
           (snd (store e (mrKey (mr_ID mr)) (VMergeRequest mr) s2)))"
  using assms
  by (simp add: processMerge_def now_def transientStatuses_def accept_def Let_def
      split: sum.splits prod.splits)

text \<open>
  C5, as stated, fails: the same task and the same status give an active, approved record
  in one world and an aborted one in another, where the fetched diff differs.
\<close>

theorem decision_counterexample:
  "map_of (db (processMerge approvingEnv sampleTarget ''not_approved'' trackedState)) (targetKey 7) =
     Some (VTarget approvedSample) \<and>
   map_of (db (processMerge changedDiffEnv sampleTarget ''not_approved'' trackedState)) (targetKey 7) =
     Some (VTarget abortedSample) \<and>
   Active approvedSample \<noteq> Active abortedSample \<and> Info approvedSample \<noteq> Info abortedSample"
  by (simp add: eval_defs sample_defs sample_key sample_mr_key approvedSample_def abortedSample_def)

text \<open>
  C5, amended. The decision is a function of the task, the status and what the world answers
  during the evaluation: two evaluations that agree on the two clock readings, on the diff
  fetch and on the answers to the approval and merge requests write the same record. For the
  statuses other than \<open>not_approved\<close> and \<open>mergeable\<close>, \<open>Info\<close>, \<open>Active\<close> and the delay
  added to the clock reading are determined by the task and the status alone.
\<close>

theorem decision_determined:
  assumes "Active target" and "mergeStatus \<in> set recognisedStatuses"
    and "\<not> set_fault e1 (targetKey (Id_t target))" and "\<not> set_fault e2 (targetKey (Id_t target))"
  shows "(let k = targetKey (Id_t target);
              r1 = map_of (db (processMerge e1 target mergeStatus s1)) k;
              r2 = map_of (db (processMerge e2 target mergeStatus s2)) k in
          (clock e1 (ticks s1) = clock e2 (ticks s2) \<and>
           clock e1 (Suc (ticks s1)) = clock e2 (Suc (ticks s2)) \<and>
           fst (PullDiff e1 (Id_t target) s1) = fst (PullDiff e2 (Id_t target) s2) \<and>
           ApproveMergeRequest e1 (ProjectID target) (MergeID target) =
             ApproveMergeRequest e2 (ProjectID target) (MergeID target) \<and>
           AcceptMergeRequest e1 (ProjectID target) (MergeID target) =
             AcceptMergeRequest e2 (ProjectID target) (MergeID target)
           \<longrightarrow> r1 = r2) \<and>
          (mergeStatus \<noteq> ''not_approved'' \<and> mergeStatus \<noteq> ''mergeable'' \<longrightarrow>
             (\<exists>t1 t2. r1 = Some (VTarget t1) \<and> r2 = Some (VTarget t2) \<and>
                Info t1 = Info t2 \<and> Active t1 = Active t2 \<and>
                Next t1 - clock e1 (Suc (ticks s1)) = Next t2 - clock e2 (Suc (ticks s2)))))"
proof -
  consider (tr) "mergeStatus \<in> set transientStatuses" | (na) "mergeStatus = ''not_approved''"
    | (me) "mergeStatus = ''mergeable''" | (ab) "mergeStatus \<in> set abortStatuses"
    using assms(2) by (auto simp: recognisedStatuses_def)
  then show ?thesis
  proof cases
    case tr
    then have "mergeStatus \<noteq> ''not_approved''" "mergeStatus \<noteq> ''mergeable''"
      by (auto simp: transientStatuses_def)
    with tr assms show ?thesis
      by (simp add: processMerge_transient storeTargetSilent_db update_conv' Let_def)
  next
    case na
    with assms show ?thesis
      by (auto simp: processMerge_not_approved Let_def reschedule_db stopProcessing_db store_db
          update_conv' split: sum.splits)
  next
    case me
    with assms show ?thesis
      by (auto simp: processMerge_mergeable Let_def reschedule_db stopProcessing_db store_db
          update_conv' split: sum.splits)
  next
    case ab
    with assms abort_not_other[of mergeStatus] show ?thesis
      by (simp add: processMerge_abort storeTargetSilent_db update_conv' Let_def)
  qed
qed

theorem decision_determined_witness:
  "Active sampleTarget \<and> ''draft_status'' \<in> set recognisedStatuses \<and>
   \<not> set_fault sampleEnv (targetKey (Id_t sampleTarget)) \<and>
   \<not> set_fault unknownStatusEnv (targetKey (Id_t sampleTarget)) \<and>
   clock sampleEnv (ticks trackedState) = clock unknownStatusEnv (ticks (trackedState\<lparr>calls := [CListProjects 1]\<rparr>)) \<and>
   fst (PullDiff sampleEnv (Id_t sampleTarget) trackedState) =
     fst (PullDiff unknownStatusEnv (Id_t sampleTarget) (trackedState\<lparr>calls := [CListProjects 1]\<rparr>)) \<and>
   ''draft_status'' \<noteq> ''not_approved'' \<and> ''draft_status'' \<noteq> ''mergeable'' \<and>
   map_of (db (processMerge sampleEnv sampleTarget ''draft_status'' trackedState)) (targetKey 7) =
     map_of (db (processMerge unknownStatusEnv sampleTarget ''draft_status''
                   (trackedState\<lparr>calls := [CListProjects 1]\<rparr>))) (targetKey 7)"
  using decision_determined [of sampleTarget "''draft_status''" sampleEnv unknownStatusEnv
      trackedState "trackedState\<lparr>calls := [CListProjects 1]\<rparr>"]
  by (simp add: sample_defs unknownStatusEnv_def recognisedStatuses_def abortStatuses_def
      transientStatuses_def Let_def PullDiff_def GetMergeRequest_def load_def db_Get_def
      sample_mr_key)

section \<open>Cancellation\<close>

text \<open>
  C10, as stated, fails: \<open>Latest\<close> and \<open>Next\<close> are not set to one cancellation time. The
  literal calls \<^verbatim>\<open>time.Now()\<close> once for \<open>Next\<close> and once more for \<open>Latest\<close>, and the two
  readings differ when the clock moves between them.
\<close>

theorem ClearMerge_time_counterexample:
  "map_of (db (snd (ClearMerge sampleEnv 7 trackedState))) (targetKey 7) =
     Some (VTarget clearedSample) \<and>
   Latest clearedSample \<noteq> Next clearedSample"
  by (simp add: ClearMerge_def now_def store_def db_Set_def sample_defs sample_key
      clearedSample_def Second_def)

text \<open>
  C10, amended. \<^verbatim>\<open>ClearMerge\<close> overwrites whatever is stored for the id with a fresh
  record: \<open>Active = False\<close>, \<open>Info = "cleared"\<close>, \<open>Next\<close> the clock reading taken first and
  \<open>Latest\<close> the clock reading taken right after it, and the fingerprint, the project id and
  the merge-request id at their zero values; the record does not depend on the one stored
  before. A write the store refuses is returned to the caller as an error and changes
  nothing.
\<close>

theorem ClearMerge_overwrites:
  "(\<not> set_fault e (targetKey i) \<longrightarrow>
      fst (ClearMerge e i s) = None \<and>
      db (snd (ClearMerge e i s)) =
        AList.update (targetKey i)
          (VTarget \<lparr>Id_t = i, ProjectID = 0, MergeID = 0, DiffHash = [], Info = ''cleared'',
             Latest = clock e (Suc (ticks s)), Next = clock e (ticks s), Active = False\<rparr>)
          (db s) \<and>
      map_of (db (snd (ClearMerge e i s))) (targetKey i) =
        Some (VTarget \<lparr>Id_t = i, ProjectID = 0, MergeID = 0, DiffHash = [], Info = ''cleared'',
             Latest = clock e (Suc (ticks s)), Next = clock e (ticks s), Active = False\<rparr>)) \<and>
   (set_fault e (targetKey i) \<longrightarrow>
      fst (ClearMerge e i s) = Some StorageError \<and> db (snd (ClearMerge e i s)) = db s) \<and>
   calls (snd (ClearMerge e i s)) = calls s \<and>
   processQueue (snd (ClearMerge e i s)) = processQueue s"
  by (simp add: ClearMerge_def now_def store_def db_Set_def update_conv')

theorem ClearMerge_overwrites_witness:
  "\<not> set_fault sampleEnv (targetKey 7) \<and>
   map_of (db trackedState) (targetKey 7) = Some (VTarget sampleTarget) \<and>
   map_of (db (snd (ClearMerge sampleEnv 7 trackedState))) (targetKey 7) =
     Some (VTarget \<lparr>Id_t = 7, ProjectID = 0, MergeID = 0, DiffHash = [], Info = ''cleared'',
        Latest = 1700000000000000001, Next = 1700000000000000000, Active = False\<rparr>)"
  using ClearMerge_overwrites [of sampleEnv 7 trackedState]
  by (simp add: sample_defs sample_key Second_def)

section \<open>Garbage collection by the enqueuer\<close>

lemma enqueueTarget_db:
  "db (enqueueTarget e t s) =
     (if \<not> Active t \<and> Before (Latest t) (clock e (ticks s) + (- 30 * Minute)) \<and>
         Info t \<noteq> ''aborted - diff changed'' \<and> \<not> del_fault e (targetKey (Id_t t))
      then AList.delete (targetKey (Id_t t)) (db s) else db s)"
  by (simp add: enqueueTarget_def now_def db_Delete_def Let_def)




lemma loadItems_ok:
  "loadItems e dec items acc = (r, None) \<Longrightarrow>
   r = acc @ map (\<lambda>(k, d). the (dec d)) items \<and>
   (\<forall>(k, d) \<in> set items. dec d \<noteq> None)"
proof (induction items arbitrary: acc)
  case Nil
  then show ?case by simp
next
  case (Cons a items)
  obtain k d where a: "a = (k, d)" by (cases a)
  from Cons.prems a obtain v where v: "dec d = Some v"
    and rest: "loadItems e dec items (acc @ [v]) = (r, None)"
    by (auto split: if_splits option.splits)
  from Cons.IH[OF rest] a v show ?case by auto
qed














lemma keyedStore_empty: "keyedStore []"
  by (simp add: keyedStore_def)

lemma keyedStore_delete: "keyedStore d \<Longrightarrow> keyedStore (AList.delete k d)"
proof -
  assume wf: "keyedStore d"
  have "set (AList.delete k d) \<subseteq> set d" by (auto simp: AList.delete_eq)
  with wf show ?thesis
    unfolding keyedStore_def list_all_iff by (auto simp: distinct_delete)
qed

lemma keyedStore_update:
  assumes "keyedStore d"
    and "prefix ''merge-target-'' k \<longrightarrow> (\<exists>t. v = VTarget t \<and> k = targetKey (Id_t t))"
  shows "keyedStore (AList.update k v d)"
proof -
  have "\<And>k' v'. (k', v') \<in> set (AList.update k v d) \<Longrightarrow> (k', v') = (k, v) \<or> (k', v') \<in> set d"
    by (induction d) (auto split: if_splits)
  with assms show ?thesis
    by (fastforce simp: keyedStore_def list_all_iff distinct_update)
qed

lemma not_prefix_mrKey: "\<not> prefix ''merge-target-'' (mrKey i)"
  by (simp add: mrKey_def)

lemma keyedStore_storeTargetSilent:
  "keyedStore (db s) \<Longrightarrow> keyedStore (db (storeTargetSilent e t s))"
  by (simp add: storeTargetSilent_db keyedStore_update)

lemma keyedStore_reschedule:
  "keyedStore (db s) \<Longrightarrow> keyedStore (db (reschedule e t d info s))"
  by (simp add: reschedule_def now_def keyedStore_storeTargetSilent)

lemma keyedStore_stopProcessing:
  "keyedStore (db s) \<Longrightarrow> keyedStore (db (stopProcessing e t info s))"
  by (simp add: stopProcessing_def now_def keyedStore_storeTargetSilent)

lemma keyedStore_store_mr:
  "keyedStore (db s) \<Longrightarrow> keyedStore (db (snd (store e (mrKey i) (VMergeRequest mr) s)))"
  by (simp add: store_db keyedStore_update not_prefix_mrKey)

lemma keyedStore_processMerge:
  assumes wf: "keyedStore (db s)"
  shows "keyedStore (db (processMerge e t st s))"
proof (cases "Active t")
  case False
  with wf show ?thesis by (simp add: processMerge_inactive)
next
  case True
  consider (tr) "st \<in> set transientStatuses" | (na) "st = ''not_approved''"
    | (me) "st = ''mergeable''" | (ab) "st \<in> set abortStatuses"
    | (un) "st \<notin> set recognisedStatuses"
    by (auto simp: recognisedStatuses_def)
  then show ?thesis
  proof cases
    case tr
    with True wf show ?thesis
      by (simp add: processMerge_transient keyedStore_storeTargetSilent)
  next
    case na
    with True wf show ?thesis
      by (simp add: processMerge_not_approved Let_def keyedStore_reschedule
          keyedStore_stopProcessing keyedStore_store_mr split: sum.splits)
  next
    case me
    with True wf show ?thesis
      by (simp add: processMerge_mergeable Let_def keyedStore_reschedule
          keyedStore_stopProcessing keyedStore_store_mr split: sum.splits)
  next
    case ab
    with True wf show ?thesis
      by (simp add: processMerge_abort keyedStore_storeTargetSilent)
  next
    case un
    with wf show ?thesis by (simp add: processMerge_unknown)
  qed
qed

lemma keyedStore_ClearMerge:
  "keyedStore (db s) \<Longrightarrow> keyedStore (db (snd (ClearMerge e i s)))"
  by (simp add: ClearMerge_def now_def store_db keyedStore_update)

lemma keyedStore_enqueueTarget:
  "keyedStore (db s) \<Longrightarrow> keyedStore (db (enqueueTarget e t s))"
  by (simp add: enqueueTarget_db keyedStore_delete)

lemma keyedStore_enqueuerPass:
  "keyedStore (db s) \<Longrightarrow> keyedStore (db (enqueuerPass e s))"
proof -
  assume wf: "keyedStore (db s)"
  have "keyedStore (db (fold (enqueueTarget e) ts s'))" if "keyedStore (db s')" for ts s'
    using that by (induction ts arbitrary: s') (simp_all add: keyedStore_enqueueTarget)
  with wf show ?thesis
    by (simp add: enqueuerPass_def split: prod.splits option.splits)
qed

end
